theory Spec2Isabelle
  imports Complex_Main
begin

section \<open>Shared conventions\<close>

text \<open>
  The three modules (\<^verbatim>\<open>tienda.py\<close>, \<^verbatim>\<open>biblioteca.py\<close>, \<^verbatim>\<open>hotel.py\<close>) are independent
  programs over in-memory objects. Objects that are reachable from more than one place
  (a \<^verbatim>\<open>Producto\<close> from the catalogue and from cart lines, a \<^verbatim>\<open>Libro\<close> from the
  catalogue and from loans, a \<^verbatim>\<open>Habitacion\<close> from the hotel and from reservations, ...)
  live in an explicit store indexed by references; an object held by exactly one owner
  is passed and returned as a value.

  Python's \<^verbatim>\<open>int\<close> is \<open>int\<close>. A naive \<^verbatim>\<open>datetime\<close> is the number of microseconds
  since some fixed origin, a \<^verbatim>\<open>timedelta\<close> is a difference of two of them, and its
  \<^verbatim>\<open>.days\<close> attribute is the floor of the quotient by one day. The nightly rate of a
  room (\<^verbatim>\<open>float\<close> in the source) is a real that is only stored; the amount of a fine
  is the exact product of the days by the rate, and no theorem below reads it. The arithmetic on prices in \<^verbatim>\<open>tienda.py\<close> is a parameter, see there.

  \<^verbatim>\<open>datetime.now()\<close> is a read of the host clock. The clock is the sequence of its
  future readings; every call consumes one reading.
\<close>

type_synonym ref = nat
type_synonym datetime = int
type_synonym reloj = "nat \<Rightarrow> datetime"

definition datetime_now :: "reloj \<Rightarrow> datetime \<times> reloj" where
  "datetime_now c = (c 0, \<lambda>n. c (Suc n))"

definition timedelta :: "int \<Rightarrow> int" where
  \<comment> \<open>\<^verbatim>\<open>timedelta(days=n)\<close>\<close>
  "timedelta n = n * 86400000000"

definition days :: "int \<Rightarrow> int" where
  \<comment> \<open>\<^verbatim>\<open>td.days\<close>\<close>
  "days td = td div 86400000000"

section \<open>tienda.py\<close>

text \<open>
  Prices and totals are Python numbers of some type \<open>'n\<close> (\<^verbatim>\<open>float\<close> by annotation,
  \<^verbatim>\<open>int\<close> equally accepted). The two arithmetic operations the module applies to them,
  the product \<^verbatim>\<open>precio * cantidad\<close> and the builtin \<^verbatim>\<open>sum\<close>, belong to the
  interpreter and are parameters of the model: nothing is assumed of them, so rounding is
  whatever the interpreter does.
\<close>

record 'n aritmetica =
  por :: "'n \<Rightarrow> int \<Rightarrow> 'n"
  suma :: "'n list \<Rightarrow> 'n"

text \<open>On \<^verbatim>\<open>int\<close> prices both operations are exact.\<close>

definition aritmetica_int :: "int aritmetica" where
  "aritmetica_int = \<lparr>por = (*), suma = sum_list\<rparr>"

datatype EstadoPedido = PENDIENTE | PROCESANDO | ENVIADO | ENTREGADO | CANCELADO

record 'n Producto =
  id_producto :: int
  nombre :: string
  descripcion :: string
  precio :: 'n
  stock :: int
  categoria :: string

definition reducir_stock :: "'n Producto \<Rightarrow> int \<Rightarrow> bool \<times> 'n Producto" where
  "reducir_stock self cantidad =
     (if cantidad \<le> stock self then (True, self\<lparr>stock := stock self - cantidad\<rparr>)
      else (False, self))"

definition aumentar_stock :: "'n Producto \<Rightarrow> int \<Rightarrow> 'n Producto" where
  "aumentar_stock self cantidad = self\<lparr>stock := stock self + cantidad\<rparr>"

definition esta_disponible :: "'n Producto \<Rightarrow> int \<Rightarrow> bool" where
  "esta_disponible self cantidad = (stock self \<ge> cantidad)"

record Cliente =
  id_cliente :: int
  nombre :: string
  email :: string
  telefono :: string
  direccion :: string
  fecha_registro :: datetime

text \<open>
  An \<^verbatim>\<open>ItemCarrito\<close> is a mutable object that refers to its \<^verbatim>\<open>Producto\<close>. A cart and
  an order each hold a list of references to such objects: \<^verbatim>\<open>items.copy()\<close> in
  \<^verbatim>\<open>Pedido.__init__\<close> makes a new list of the same objects.
\<close>

record ItemCarrito =
  producto :: ref
  cantidad :: int

record CarritoCompras =
  cliente :: Cliente
  items :: "ref list"

record 'n Pedido =
  id_pedido :: int
  cliente :: Cliente
  items :: "ref list"
  estado :: EstadoPedido
  fecha_pedido :: datetime
  total :: 'n

record Tienda =
  nombre :: string
  productos :: "ref list"
  clientes :: "Cliente list"
  pedidos :: "ref list"

text \<open>
  The store of \<^verbatim>\<open>tienda.py\<close>: the \<^verbatim>\<open>Producto\<close>, \<^verbatim>\<open>ItemCarrito\<close> and \<^verbatim>\<open>Pedido\<close>
  objects, the numbers of \<^verbatim>\<open>ItemCarrito\<close> and \<^verbatim>\<open>Pedido\<close> objects allocated so far
  (the next one gets that reference), the class counter \<^verbatim>\<open>Pedido.contador_pedidos\<close> and
  the clock. A cart and a \<^verbatim>\<open>Tienda\<close> are passed and returned as values.
\<close>

record 'n MemTienda =
  mem_productos :: "ref \<Rightarrow> 'n Producto"
  mem_items :: "ref \<Rightarrow> ItemCarrito"
  num_items :: nat
  mem_pedidos :: "ref \<Rightarrow> 'n Pedido"
  num_pedidos :: nat
  contador_pedidos :: int
  reloj_tienda :: reloj

definition calcular_subtotal :: "'n aritmetica \<Rightarrow> 'n MemTienda \<Rightarrow> ref \<Rightarrow> 'n" where
  \<comment> \<open>\<^verbatim>\<open>ItemCarrito.calcular_subtotal\<close>, \<open>self\<close> being the reference of the line\<close>
  "calcular_subtotal ar m self =
     por ar (precio (mem_productos m (producto (mem_items m self)))) (cantidad (mem_items m self))"

text \<open>
  The loop of \<^verbatim>\<open>CarritoCompras.agregar_producto\<close>: the first line of the cart whose
  product has the given \<^verbatim>\<open>id_producto\<close>; \<open>None\<close> when the loop ends without a match.
\<close>

fun buscar_item :: "'n MemTienda \<Rightarrow> int \<Rightarrow> ref list \<Rightarrow> ref option" where
  "buscar_item m idp [] = None"
| "buscar_item m idp (item # resto) =
     (if id_producto (mem_productos m (producto (mem_items m item))) = idp then Some item
      else buscar_item m idp resto)"

definition ItemCarrito_init :: "'n MemTienda \<Rightarrow> ref \<Rightarrow> int \<Rightarrow> ref \<times> 'n MemTienda" where
  "ItemCarrito_init m p cant =
     (let self = num_items m
      in (self, m\<lparr>mem_items := (mem_items m)(self := \<lparr>producto = p, cantidad = cant\<rparr>),
                  num_items := Suc self\<rparr>))"

definition agregar_producto ::
  "'n MemTienda \<Rightarrow> CarritoCompras \<Rightarrow> ref \<Rightarrow> int \<Rightarrow> bool \<times> 'n MemTienda \<times> CarritoCompras" where
  "agregar_producto m self p cant =
     (if \<not> esta_disponible (mem_productos m p) cant then (False, m, self)
      else (case buscar_item m (id_producto (mem_productos m p)) (CarritoCompras.items self) of
              Some item \<Rightarrow>
                (True,
                 m\<lparr>mem_items := (mem_items m)
                     (item := (mem_items m item)\<lparr>cantidad := cantidad (mem_items m item) + cant\<rparr>)\<rparr>,
                 self)
            | None \<Rightarrow>
                (let (item, m') = ItemCarrito_init m p cant
                 in (True, m',
                     self\<lparr>CarritoCompras.items := CarritoCompras.items self @ [item]\<rparr>))))"

definition calcular_total :: "'n aritmetica \<Rightarrow> 'n MemTienda \<Rightarrow> CarritoCompras \<Rightarrow> 'n" where
  \<comment> \<open>\<^verbatim>\<open>CarritoCompras.calcular_total\<close>\<close>
  "calcular_total ar m self = suma ar (map (calcular_subtotal ar m) (CarritoCompras.items self))"

definition vaciar_carrito :: "CarritoCompras \<Rightarrow> CarritoCompras" where
  "vaciar_carrito self = self\<lparr>CarritoCompras.items := []\<rparr>"

definition Pedido_init ::
  "'n aritmetica \<Rightarrow> 'n MemTienda \<Rightarrow> Cliente \<Rightarrow> ref list \<Rightarrow> ref \<times> 'n MemTienda" where
  "Pedido_init ar m cli its =
     (let self = num_pedidos m;
          idp = contador_pedidos m;
          (ahora, c') = datetime_now (reloj_tienda m);
          obj = \<lparr>id_pedido = idp, cliente = cli, items = its, estado = PENDIENTE,
                 fecha_pedido = ahora,
                 total = suma ar (map (calcular_subtotal ar m) its)\<rparr>
      in (self, m\<lparr>mem_pedidos := (mem_pedidos m)(self := obj),
                  num_pedidos := Suc self,
                  contador_pedidos := idp + 1,
                  reloj_tienda := c'\<rparr>))"

definition cambiar_estado :: "'n MemTienda \<Rightarrow> ref \<Rightarrow> EstadoPedido \<Rightarrow> 'n MemTienda" where
  "cambiar_estado m self nuevo_estado =
     m\<lparr>mem_pedidos := (mem_pedidos m)(self := (mem_pedidos m self)\<lparr>estado := nuevo_estado\<rparr>)\<rparr>"

text \<open>
  The loop of \<^verbatim>\<open>Tienda.crear_pedido\<close>: \<^verbatim>\<open>reducir_stock\<close> on the product of each line
  in order, stopping at the first line that fails. The products (\<open>mem\<close>) are updated in
  place, the lines (\<open>lin\<close>) are only read.
\<close>

fun reducir_lineas ::
  "(ref \<Rightarrow> 'n Producto) \<Rightarrow> (ref \<Rightarrow> ItemCarrito) \<Rightarrow> ref list \<Rightarrow> bool \<times> (ref \<Rightarrow> 'n Producto)" where
  "reducir_lineas mem lin [] = (True, mem)"
| "reducir_lineas mem lin (item # resto) =
     (case reducir_stock (mem (producto (lin item))) (cantidad (lin item)) of
        (True, p') \<Rightarrow> reducir_lineas (mem(producto (lin item) := p')) lin resto
      | (False, p') \<Rightarrow> (False, mem(producto (lin item) := p')))"

definition crear_pedido ::
  "'n aritmetica \<Rightarrow> 'n MemTienda \<Rightarrow> Tienda \<Rightarrow> Cliente \<Rightarrow> CarritoCompras
     \<Rightarrow> ref option \<times> 'n MemTienda \<times> Tienda \<times> CarritoCompras" where
  "crear_pedido ar m self cli carrito =
     (if CarritoCompras.items carrito = [] then (None, m, self, carrito)
      else (case reducir_lineas (mem_productos m) (mem_items m) (CarritoCompras.items carrito) of
              (False, mem') \<Rightarrow> (None, m\<lparr>mem_productos := mem'\<rparr>, self, carrito)
            | (True, mem') \<Rightarrow>
                (let (pedido, m') = Pedido_init ar (m\<lparr>mem_productos := mem'\<rparr>) cli
                                      (CarritoCompras.items carrito)
                 in (Some pedido, m', self\<lparr>pedidos := pedidos self @ [pedido]\<rparr>,
                     vaciar_carrito carrito))))"

text \<open>
  What can happen to the store after an order exists: the methods of \<^verbatim>\<open>tienda.py\<close> that
  write to a \<^verbatim>\<open>Producto\<close>, an \<^verbatim>\<open>ItemCarrito\<close> or a \<^verbatim>\<open>Pedido\<close>, and the assignment
  \<^verbatim>\<open>producto.precio = v\<close> of a new price to a product. The cart and the \<^verbatim>\<open>Tienda\<close> of
  an operation are arbitrary, so a cart may hold lines that an order holds too.
  (\<^verbatim>\<open>eliminar_producto\<close> and \<^verbatim>\<open>vaciar_carrito\<close> write only the cart's own list.)
\<close>

definition asignar_precio :: "'n MemTienda \<Rightarrow> ref \<Rightarrow> 'n \<Rightarrow> 'n MemTienda" where
  "asignar_precio m p v =
     m\<lparr>mem_productos := (mem_productos m)(p := (mem_productos m p)\<lparr>precio := v\<rparr>)\<rparr>"

datatype 'n OpTienda =
    OpReducirStock ref int
  | OpAumentarStock ref int
  | OpAsignarPrecio ref 'n
  | OpCambiarEstado ref EstadoPedido
  | OpAgregarProducto CarritoCompras ref int
  | OpPedido Cliente "ref list"
  | OpCrearPedido Tienda Cliente CarritoCompras

fun ejecutar :: "'n aritmetica \<Rightarrow> 'n OpTienda \<Rightarrow> 'n MemTienda \<Rightarrow> 'n MemTienda" where
  "ejecutar ar (OpReducirStock p c) m =
     m\<lparr>mem_productos := (mem_productos m)(p := snd (reducir_stock (mem_productos m p) c))\<rparr>"
| "ejecutar ar (OpAumentarStock p c) m =
     m\<lparr>mem_productos := (mem_productos m)(p := aumentar_stock (mem_productos m p) c)\<rparr>"
| "ejecutar ar (OpAsignarPrecio p v) m = asignar_precio m p v"
| "ejecutar ar (OpCambiarEstado r e) m = cambiar_estado m r e"
| "ejecutar ar (OpAgregarProducto carrito p c) m = fst (snd (agregar_producto m carrito p c))"
| "ejecutar ar (OpPedido cli its) m = snd (Pedido_init ar m cli its)"
| "ejecutar ar (OpCrearPedido t cli carrito) m = fst (snd (crear_pedido ar m t cli carrito))"

fun ejecutar_todas :: "'n aritmetica \<Rightarrow> 'n OpTienda list \<Rightarrow> 'n MemTienda \<Rightarrow> 'n MemTienda" where
  "ejecutar_todas ar [] m = m"
| "ejecutar_todas ar (op # ops) m = ejecutar_todas ar ops (ejecutar ar op m)"

section \<open>biblioteca.py\<close>

datatype EstadoLibro = DISPONIBLE | PRESTADO | MANTENIMIENTO

datatype Genero = FICCION | NO_FICCION | CIENCIA | HISTORIA | INFANTIL | POESIA | DRAMA

record Libro =
  isbn :: string
  titulo :: string
  autor :: string
  genero :: Genero
  anio_publicacion :: int
  numero_copias :: int
  estado :: EstadoLibro

definition prestar_copia :: "Libro \<Rightarrow> bool \<times> Libro" where
  "prestar_copia self =
     (if numero_copias self > 0
      then (let self' = self\<lparr>numero_copias := numero_copias self - 1\<rparr>
            in (True, if numero_copias self' = 0 then self'\<lparr>Libro.estado := PRESTADO\<rparr>
                      else self'))
      else (False, self))"

definition devolver_copia :: "Libro \<Rightarrow> Libro" where
  "devolver_copia self =
     (let self' = self\<lparr>numero_copias := numero_copias self + 1\<rparr>
      in if numero_copias self' > 0 then self'\<lparr>Libro.estado := DISPONIBLE\<rparr> else self')"

definition libro_esta_disponible :: "Libro \<Rightarrow> bool" where
  \<comment> \<open>\<^verbatim>\<open>Libro.esta_disponible\<close>\<close>
  "libro_esta_disponible self = (numero_copias self > 0)"

record Miembro =
  id_miembro :: int
  nombre :: string
  email :: string
  telefono :: string
  fecha_registro :: datetime
  activo :: bool

definition DIAS_PRESTAMO :: int where
  "DIAS_PRESTAMO = 14"

definition MAX_RENOVACIONES :: int where
  "MAX_RENOVACIONES = 2"

record Prestamo =
  id_prestamo :: int
  miembro :: ref
  libro :: ref
  fecha_prestamo :: datetime
  fecha_vencimiento :: datetime
  fecha_devolucion :: "datetime option"
  renovaciones :: int

definition TARIFA_DIARIA :: real where
  "TARIFA_DIARIA = 1.50"

record Multa =
  id_multa :: int
  prestamo :: ref
  monto :: real
  pagada :: bool
  fecha_creacion :: datetime

record Biblioteca =
  nombre :: string
  libros :: "string \<rightharpoonup> ref"
  miembros :: "ref list"
  prestamos :: "ref list"
  multas :: "Multa list"

text \<open>
  The store of \<^verbatim>\<open>biblioteca.py\<close>: the \<^verbatim>\<open>Libro\<close>, \<^verbatim>\<open>Miembro\<close> and \<^verbatim>\<open>Prestamo\<close>
  objects, the number of \<^verbatim>\<open>Prestamo\<close> objects allocated so far, the class counters
  \<^verbatim>\<open>Prestamo.contador_prestamos\<close> and \<^verbatim>\<open>Multa.contador_multas\<close>, and the clock.
\<close>

record MemBiblioteca =
  mem_libros :: "ref \<Rightarrow> Libro"
  mem_miembros :: "ref \<Rightarrow> Miembro"
  mem_prestamos :: "ref \<Rightarrow> Prestamo"
  num_prestamos :: nat
  contador_prestamos :: int
  contador_multas :: int
  reloj_biblioteca :: reloj

definition Prestamo_init :: "MemBiblioteca \<Rightarrow> ref \<Rightarrow> ref \<Rightarrow> ref \<times> MemBiblioteca" where
  "Prestamo_init m mi li =
     (let self = num_prestamos m;
          idp = contador_prestamos m;
          (ahora, c') = datetime_now (reloj_biblioteca m);
          obj = \<lparr>id_prestamo = idp, miembro = mi, libro = li, fecha_prestamo = ahora,
                 fecha_vencimiento = ahora + timedelta DIAS_PRESTAMO,
                 fecha_devolucion = None, renovaciones = 0\<rparr>
      in (self, m\<lparr>mem_prestamos := (mem_prestamos m)(self := obj),
                  num_prestamos := Suc self,
                  contador_prestamos := idp + 1,
                  reloj_biblioteca := c'\<rparr>))"

definition renovar :: "MemBiblioteca \<Rightarrow> ref \<Rightarrow> bool \<times> MemBiblioteca" where
  "renovar m self =
     (let p = mem_prestamos m self
      in if renovaciones p < MAX_RENOVACIONES
         then (let (ahora, c') = datetime_now (reloj_biblioteca m);
                   p' = p\<lparr>renovaciones := renovaciones p + 1,
                          fecha_vencimiento := ahora + timedelta DIAS_PRESTAMO\<rparr>
               in (True, m\<lparr>mem_prestamos := (mem_prestamos m)(self := p'),
                            reloj_biblioteca := c'\<rparr>))
         else (False, m))"

definition devolver :: "MemBiblioteca \<Rightarrow> ref \<Rightarrow> MemBiblioteca" where
  "devolver m self =
     (let (ahora, c') = datetime_now (reloj_biblioteca m)
      in m\<lparr>mem_prestamos :=
              (mem_prestamos m)(self := (mem_prestamos m self)\<lparr>fecha_devolucion := Some ahora\<rparr>),
           reloj_biblioteca := c'\<rparr>)"

text \<open>A \<^verbatim>\<open>datetime\<close> is always truthy, so \<^verbatim>\<open>if self.fecha_devolucion\<close> tests for \<^verbatim>\<open>None\<close>.\<close>

definition esta_vencido :: "MemBiblioteca \<Rightarrow> ref \<Rightarrow> bool \<times> MemBiblioteca" where
  "esta_vencido m self =
     (if fecha_devolucion (mem_prestamos m self) \<noteq> None then (False, m)
      else (let (ahora, c') = datetime_now (reloj_biblioteca m)
            in (ahora > fecha_vencimiento (mem_prestamos m self), m\<lparr>reloj_biblioteca := c'\<rparr>)))"

definition Multa_init :: "MemBiblioteca \<Rightarrow> ref \<Rightarrow> int \<Rightarrow> Multa \<times> MemBiblioteca" where
  "Multa_init m pr dias_retraso =
     (let idm = contador_multas m;
          (ahora, c') = datetime_now (reloj_biblioteca m)
      in (\<lparr>id_multa = idm, prestamo = pr, monto = of_int dias_retraso * TARIFA_DIARIA,
            pagada = False, fecha_creacion = ahora\<rparr>,
          m\<lparr>contador_multas := idm + 1, reloj_biblioteca := c'\<rparr>))"

definition agregar_libro :: "MemBiblioteca \<Rightarrow> Biblioteca \<Rightarrow> ref \<Rightarrow> MemBiblioteca \<times> Biblioteca" where
  "agregar_libro m self li =
     (case libros self (isbn (mem_libros m li)) of
        Some r \<Rightarrow>
          (m\<lparr>mem_libros := (mem_libros m)
                (r := (mem_libros m r)\<lparr>numero_copias :=
                         numero_copias (mem_libros m r) + numero_copias (mem_libros m li)\<rparr>)\<rparr>,
           self)
      | None \<Rightarrow> (m, self\<lparr>libros := (libros self)(isbn (mem_libros m li) \<mapsto> li)\<rparr>))"

definition realizar_prestamo ::
  "MemBiblioteca \<Rightarrow> Biblioteca \<Rightarrow> ref \<Rightarrow> ref \<Rightarrow> ref option \<times> MemBiblioteca \<times> Biblioteca" where
  "realizar_prestamo m self mi li =
     (if \<not> activo (mem_miembros m mi) then (None, m, self)
      else if \<not> libro_esta_disponible (mem_libros m li) then (None, m, self)
      else if filter (\<lambda>mu. id_miembro (mem_miembros m (miembro (mem_prestamos m (prestamo mu))))
                              = id_miembro (mem_miembros m mi) \<and> \<not> pagada mu) (multas self) \<noteq> []
           then (None, m, self)
      else (let (pr, m1) = Prestamo_init m mi li;
                m2 = m1\<lparr>mem_libros := (mem_libros m1)(li := snd (prestar_copia (mem_libros m1 li)))\<rparr>
            in (Some pr, m2, self\<lparr>prestamos := prestamos self @ [pr]\<rparr>)))"

text \<open>
  The lookup loop shared by \<^verbatim>\<open>devolver_libro\<close> and \<^verbatim>\<open>renovar_prestamo\<close>: the first loan
  of the list whose \<^verbatim>\<open>id_prestamo\<close> is the one asked for (every branch under the match
  returns, so later matches are never reached).
\<close>

fun buscar_prestamo :: "(ref \<Rightarrow> Prestamo) \<Rightarrow> int \<Rightarrow> ref list \<Rightarrow> ref option" where
  "buscar_prestamo mem idp [] = None"
| "buscar_prestamo mem idp (r # rs) =
     (if id_prestamo (mem r) = idp then Some r else buscar_prestamo mem idp rs)"

definition devolver_libro :: "MemBiblioteca \<Rightarrow> Biblioteca \<Rightarrow> int \<Rightarrow> bool \<times> MemBiblioteca \<times> Biblioteca" where
  "devolver_libro m self idp =
     (case buscar_prestamo (mem_prestamos m) idp (prestamos self) of
        None \<Rightarrow> (False, m, self)
      | Some pr \<Rightarrow>
          if fecha_devolucion (mem_prestamos m pr) \<noteq> None then (False, m, self)
          else (let m1 = devolver m pr;
                    li = libro (mem_prestamos m1 pr);
                    m2 = m1\<lparr>mem_libros := (mem_libros m1)(li := devolver_copia (mem_libros m1 li))\<rparr>;
                    (vencido, m3) = esta_vencido m2 pr
                in if vencido
                   then (let (ahora, c') = datetime_now (reloj_biblioteca m3);
                             dias_retraso = days (ahora - fecha_vencimiento (mem_prestamos m3 pr));
                             (multa, m4) = Multa_init (m3\<lparr>reloj_biblioteca := c'\<rparr>) pr dias_retraso
                         in (True, m4, self\<lparr>multas := multas self @ [multa]\<rparr>))
                   else (True, m3, self)))"

definition renovar_prestamo :: "MemBiblioteca \<Rightarrow> Biblioteca \<Rightarrow> int \<Rightarrow> bool \<times> MemBiblioteca" where
  "renovar_prestamo m self idp =
     (case buscar_prestamo (mem_prestamos m) idp (prestamos self) of
        None \<Rightarrow> (False, m)
      | Some pr \<Rightarrow>
          if fecha_devolucion (mem_prestamos m pr) \<noteq> None then (False, m)
          else renovar m pr)"

section \<open>hotel.py\<close>

record Habitacion =
  numero :: int
  tipo :: string
  precio_noche :: real
  disponible :: bool

definition marcar_ocupada :: "Habitacion \<Rightarrow> Habitacion" where
  "marcar_ocupada self = self\<lparr>disponible := False\<rparr>"

definition marcar_disponible :: "Habitacion \<Rightarrow> Habitacion" where
  "marcar_disponible self = self\<lparr>disponible := True\<rparr>"

record Huesped =
  nombre :: string
  email :: string
  telefono :: string
  documento :: string

record Reserva =
  id_reserva :: int
  huesped :: Huesped
  habitacion :: ref
  fecha_entrada :: datetime
  fecha_salida :: datetime
  estado :: string
  fecha_reserva :: datetime

record Hotel =
  nombre :: string
  habitaciones :: "ref list"
  reservas :: "ref list"

text \<open>
  The store of \<^verbatim>\<open>hotel.py\<close>: the \<^verbatim>\<open>Habitacion\<close> and \<^verbatim>\<open>Reserva\<close> objects, the number
  of \<^verbatim>\<open>Reserva\<close> objects allocated so far, the class counter
  \<^verbatim>\<open>Reserva.contador_reservas\<close> and the clock.
\<close>

record MemHotel =
  mem_habitaciones :: "ref \<Rightarrow> Habitacion"
  mem_reservas :: "ref \<Rightarrow> Reserva"
  num_reservas :: nat
  contador_reservas :: int
  reloj_hotel :: reloj

definition Reserva_init ::
  "MemHotel \<Rightarrow> Huesped \<Rightarrow> ref \<Rightarrow> datetime \<Rightarrow> datetime \<Rightarrow> ref \<times> MemHotel" where
  "Reserva_init m hu hab fe fs =
     (let self = num_reservas m;
          idr = contador_reservas m;
          (ahora, c') = datetime_now (reloj_hotel m);
          obj = \<lparr>id_reserva = idr, huesped = hu, habitacion = hab, fecha_entrada = fe,
                 fecha_salida = fs, estado = ''confirmada'', fecha_reserva = ahora\<rparr>
      in (self, m\<lparr>mem_reservas := (mem_reservas m)(self := obj),
                  num_reservas := Suc self,
                  contador_reservas := idr + 1,
                  reloj_hotel := c'\<rparr>))"

definition calcular_noches :: "Reserva \<Rightarrow> int" where
  "calcular_noches self = days (fecha_salida self - fecha_entrada self)"

definition cancelar :: "MemHotel \<Rightarrow> ref \<Rightarrow> MemHotel" where
  "cancelar m self =
     (let m1 = m\<lparr>mem_reservas := (mem_reservas m)
                    (self := (mem_reservas m self)\<lparr>Reserva.estado := ''cancelada''\<rparr>)\<rparr>;
          hab = habitacion (mem_reservas m1 self)
      in m1\<lparr>mem_habitaciones := (mem_habitaciones m1)
                (hab := marcar_disponible (mem_habitaciones m1 hab))\<rparr>)"

definition completar :: "MemHotel \<Rightarrow> ref \<Rightarrow> MemHotel" where
  "completar m self =
     (let m1 = m\<lparr>mem_reservas := (mem_reservas m)
                    (self := (mem_reservas m self)\<lparr>Reserva.estado := ''completada''\<rparr>)\<rparr>;
          hab = habitacion (mem_reservas m1 self)
      in m1\<lparr>mem_habitaciones := (mem_habitaciones m1)
                (hab := marcar_disponible (mem_habitaciones m1 hab))\<rparr>)"

definition realizar_reserva ::
  "MemHotel \<Rightarrow> Hotel \<Rightarrow> Huesped \<Rightarrow> ref \<Rightarrow> datetime \<Rightarrow> datetime
     \<Rightarrow> ref option \<times> MemHotel \<times> Hotel" where
  "realizar_reserva m self hu hab fe fs =
     (if \<not> disponible (mem_habitaciones m hab) then (None, m, self)
      else if fs \<le> fe then (None, m, self)
      else (let (reserva, m1) = Reserva_init m hu hab fe fs;
                m2 = m1\<lparr>mem_habitaciones := (mem_habitaciones m1)
                          (hab := marcar_ocupada (mem_habitaciones m1 hab))\<rparr>
            in (Some reserva, m2, self\<lparr>reservas := reservas self @ [reserva]\<rparr>)))"

section \<open>Concrete states\<close>

text \<open>Small objects and stores on which the theorems below are instantiated.\<close>

definition libro_ej :: "int \<Rightarrow> Libro" where
  "libro_ej n = \<lparr>isbn = ''978-0'', titulo = ''El Quijote'', autor = ''Cervantes'', genero = FICCION,
                  anio_publicacion = 1605, numero_copias = n, Libro.estado = DISPONIBLE\<rparr>"

definition producto_ej :: "int \<Rightarrow> int \<Rightarrow> int \<Rightarrow> int Producto" where
  "producto_ej i pr s =
     \<lparr>id_producto = i, Producto.nombre = ''p'', descripcion = [], precio = pr, stock = s,
      categoria = []\<rparr>"

definition cliente_ej :: Cliente where
  "cliente_ej = \<lparr>id_cliente = 1000, Cliente.nombre = ''Ana'', Cliente.email = [],
                  Cliente.telefono = [], direccion = [], Cliente.fecha_registro = 0\<rparr>"

definition pedido_ej :: "int Pedido" where
  "pedido_ej = \<lparr>id_pedido = 0, Pedido.cliente = cliente_ej, Pedido.items = [],
                 Pedido.estado = PENDIENTE, fecha_pedido = 0, total = 0\<rparr>"

text \<open>
  Product 1 costs 10 and has 5 units in stock; product 2 costs 4 and has 1 unit. Line 0
  is \<open>a\<close> units of product 1, line 1 is \<open>b\<close> units of product 2. No order exists yet.
\<close>

definition mem_tienda_ej :: "int \<Rightarrow> int \<Rightarrow> int MemTienda" where
  "mem_tienda_ej a b =
     \<lparr>mem_productos = (\<lambda>_. producto_ej 0 0 0)(1 := producto_ej 1 10 5, 2 := producto_ej 2 4 1),
      mem_items = (\<lambda>_. \<lparr>producto = 0, cantidad = 0\<rparr>)
         (0 := \<lparr>producto = 1, cantidad = a\<rparr>, 1 := \<lparr>producto = 2, cantidad = b\<rparr>),
      num_items = 2,
      mem_pedidos = (\<lambda>_. pedido_ej), num_pedidos = 0, contador_pedidos = 5000,
      reloj_tienda = (\<lambda>n. int n)\<rparr>"

definition tienda_ej :: Tienda where
  "tienda_ej = \<lparr>Tienda.nombre = ''TechStore'', productos = [1, 2], clientes = [cliente_ej],
                 pedidos = []\<rparr>"

text \<open>The cart that holds lines 0 and 1.\<close>

definition carrito_ej :: CarritoCompras where
  "carrito_ej = \<lparr>CarritoCompras.cliente = cliente_ej, CarritoCompras.items = [0, 1]\<rparr>"

definition ops_ej :: "int OpTienda list" where
  "ops_ej = [OpAsignarPrecio 1 99, OpAgregarProducto carrito_ej 1 1, OpCambiarEstado 0 ENVIADO,
             OpAumentarStock 2 7, OpCrearPedido tienda_ej cliente_ej carrito_ej]"

text \<open>
  An order built from the lines of the cart (2 units of product 1, 1 unit of product 2)
  while the cart keeps them, and the store after one more unit of product 1 is then added
  to the cart.
\<close>

definition mem_pedido_ej :: "int MemTienda" where
  "mem_pedido_ej =
     snd (Pedido_init aritmetica_int (mem_tienda_ej 2 1) cliente_ej (CarritoCompras.items carrito_ej))"

definition mem_alias_ej :: "int MemTienda" where
  "mem_alias_ej = fst (snd (agregar_producto mem_pedido_ej carrito_ej 1 1))"

definition miembro_ej :: Miembro where
  "miembro_ej = \<lparr>id_miembro = 1, Miembro.nombre = ''Laura'', Miembro.email = [],
                  Miembro.telefono = [], Miembro.fecha_registro = 0, activo = True\<rparr>"

definition prestamo_ej :: "int \<Rightarrow> datetime option \<Rightarrow> int \<Rightarrow> Prestamo" where
  "prestamo_ej i dev ren =
     \<lparr>id_prestamo = i, miembro = 0, libro = 0, fecha_prestamo = 0,
      fecha_vencimiento = timedelta 14, fecha_devolucion = dev, renovaciones = ren\<rparr>"

text \<open>
  The catalogued book (reference 0) has no copy left; it is lent by loan 1 (reference 0,
  due at day 14, still out); loan 2 (reference 1) was returned at day 3. Every clock
  reading is past day 34. Two more \<^verbatim>\<open>Libro\<close> objects are not catalogued: reference 1
  has the catalogued ISBN, another title and 3 copies; reference 2 has a new ISBN.
\<close>

definition mem_biblioteca_ej :: MemBiblioteca where
  "mem_biblioteca_ej =
     \<lparr>mem_libros = (\<lambda>_. libro_ej 0)
         (1 := (libro_ej 3)\<lparr>titulo := ''Don Quijote''\<rparr>, 2 := (libro_ej 2)\<lparr>isbn := ''978-1''\<rparr>),
      mem_miembros = (\<lambda>_. miembro_ej),
      mem_prestamos = (\<lambda>_. prestamo_ej 0 None 0)
         (0 := prestamo_ej 1 None 0, 1 := prestamo_ej 2 (Some (timedelta 3)) 0),
      num_prestamos = 2, contador_prestamos = 3, contador_multas = 1,
      reloj_biblioteca = (\<lambda>n. timedelta 34 + 1 + int n)\<rparr>"

definition biblioteca_ej :: Biblioteca where
  "biblioteca_ej = \<lparr>Biblioteca.nombre = ''Central'', libros = [''978-0'' \<mapsto> 0], miembros = [0],
                     prestamos = [0, 1], multas = []\<rparr>"

definition habitacion_ej :: "bool \<Rightarrow> Habitacion" where
  "habitacion_ej d = \<lparr>numero = 101, tipo = ''simple'', precio_noche = 50, disponible = d\<rparr>"

definition huesped_ej :: Huesped where
  "huesped_ej = \<lparr>Huesped.nombre = ''Juan'', Huesped.email = [], Huesped.telefono = [],
                  documento = ''12345678''\<rparr>"

definition reserva_ej :: "int \<Rightarrow> string \<Rightarrow> Reserva" where
  "reserva_ej i e = \<lparr>id_reserva = i, huesped = huesped_ej, habitacion = 0, fecha_entrada = 0,
                      fecha_salida = timedelta 5, Reserva.estado = e, fecha_reserva = 0\<rparr>"

text \<open>
  Room 101 (reference 0) is occupied: reservation 1000 on it was completed, and
  reservation 1001 on it is confirmed. Room reference 1 is free.
\<close>

definition mem_hotel_ej :: MemHotel where
  "mem_hotel_ej =
     \<lparr>mem_habitaciones = (\<lambda>_. habitacion_ej True)(0 := habitacion_ej False),
      mem_reservas = (\<lambda>_. reserva_ej 0 [])
         (0 := reserva_ej 1000 ''completada'', 1 := reserva_ej 1001 ''confirmada''),
      num_reservas = 2, contador_reservas = 1002, reloj_hotel = (\<lambda>n. int n)\<rparr>"

definition hotel_ej :: Hotel where
  "hotel_ej = \<lparr>Hotel.nombre = ''Paradise'', habitaciones = [0, 1], reservas = [0, 1]\<rparr>"

section \<open>Auxiliary facts\<close>

text \<open>No operation writes the \<^verbatim>\<open>total\<close> or the list of lines of an order that exists.\<close>

lemma ejecutar_frame:
  assumes "r < num_pedidos m"
  shows "total (mem_pedidos (ejecutar ar op m) r) = total (mem_pedidos m r) \<and>
         Pedido.items (mem_pedidos (ejecutar ar op m) r) = Pedido.items (mem_pedidos m r) \<and>
         r < num_pedidos (ejecutar ar op m)"
  using assms
  by (cases op)
     (auto simp: asignar_precio_def cambiar_estado_def agregar_producto_def ItemCarrito_init_def
           crear_pedido_def Pedido_init_def Let_def
           split: prod.splits bool.splits option.splits)

lemma ejecutar_todas_frame:
  "r < num_pedidos m \<Longrightarrow>
     total (mem_pedidos (ejecutar_todas ar ops m) r) = total (mem_pedidos m r) \<and>
     Pedido.items (mem_pedidos (ejecutar_todas ar ops m) r) = Pedido.items (mem_pedidos m r)"
  by (induction ops arbitrary: m) (auto simp: ejecutar_frame)


text \<open>The lookup by id only reads the ids of the loans.\<close>

lemma buscar_prestamo_ids:
  "(\<And>r. id_prestamo (mem' r) = id_prestamo (mem r)) \<Longrightarrow>
     buscar_prestamo mem' idp rs = buscar_prestamo mem idp rs"
  by (induction rs) auto

lemma buscar_prestamo_distinct:
  "distinct (map (\<lambda>r. id_prestamo (mem r)) rs) \<Longrightarrow> pr \<in> set rs \<Longrightarrow>
     buscar_prestamo mem (id_prestamo (mem pr)) rs = Some pr"
  by (induction rs) auto

text \<open>
  \<^verbatim>\<open>devolver_libro\<close> stamps \<^verbatim>\<open>fecha_devolucion\<close> before it asks \<^verbatim>\<open>esta_vencido\<close>,
  which answers \<^verbatim>\<open>False\<close> for a loan with a return date: the branch that creates the
  \<^verbatim>\<open>Multa\<close> is never taken.
\<close>

lemma devolver_libro_multas:
  "multas (snd (snd (devolver_libro m b idp))) = multas b"
  by (simp add: devolver_libro_def devolver_def esta_vencido_def datetime_now_def Let_def
        split: option.splits prod.splits)

lemma renovar_prestamo_encontrado:
  assumes "buscar_prestamo (mem_prestamos m) idp (prestamos b) = Some pr"
      and "fecha_devolucion (mem_prestamos m pr) = None"
  shows "renovar_prestamo m b idp = renovar m pr"
  using assms by (simp add: renovar_prestamo_def)

lemma renovar_conserva:
  "id_prestamo (mem_prestamos (snd (renovar m pr)) r) = id_prestamo (mem_prestamos m r) \<and>
   fecha_devolucion (mem_prestamos (snd (renovar m pr)) r) = fecha_devolucion (mem_prestamos m r)"
  by (simp add: renovar_def Let_def split: prod.splits)

section \<open>Capacity of books and products\<close>

text \<open>
  C4. A book whose \<^verbatim>\<open>numero_copias\<close> is nonnegative still has a nonnegative
  \<^verbatim>\<open>numero_copias\<close> after \<^verbatim>\<open>prestar_copia\<close> and after \<^verbatim>\<open>devolver_copia\<close>; a product
  whose \<^verbatim>\<open>stock\<close> is nonnegative still has a nonnegative \<^verbatim>\<open>stock\<close> after
  \<^verbatim>\<open>reducir_stock\<close> and after \<^verbatim>\<open>aumentar_stock\<close> with a nonnegative amount.
\<close>

theorem capacidad_no_negativa:
  "(0 \<le> numero_copias l \<longrightarrow>
      0 \<le> numero_copias (snd (prestar_copia l)) \<and> 0 \<le> numero_copias (devolver_copia l)) \<and>
   (0 \<le> stock p \<and> 0 \<le> n \<longrightarrow>
      0 \<le> stock (snd (reducir_stock p n)) \<and> 0 \<le> stock (aumentar_stock p n))"
  by (simp add: prestar_copia_def devolver_copia_def reducir_stock_def aumentar_stock_def Let_def)

theorem capacidad_no_negativa_witness:
  "0 \<le> numero_copias (libro_ej 1) \<and> 0 \<le> stock (producto_ej 1 10 5) \<and> (0::int) \<le> 5 \<and>
   numero_copias (snd (prestar_copia (libro_ej 1))) = 0 \<and>
   0 \<le> numero_copias (snd (prestar_copia (libro_ej 1))) \<and>
   0 \<le> numero_copias (devolver_copia (libro_ej 1)) \<and>
   stock (snd (reducir_stock (producto_ej 1 10 5) 5)) = 0 \<and>
   0 \<le> stock (snd (reducir_stock (producto_ej 1 10 5) 5)) \<and>
   0 \<le> stock (aumentar_stock (producto_ej 1 10 5) 5)"
  using capacidad_no_negativa [of "libro_ej 1" "producto_ej 1 10 5" 5]
  by (simp add: libro_ej_def producto_ej_def prestar_copia_def reducir_stock_def Let_def)

text \<open>
  C7. On a book with at least two copies, two \<^verbatim>\<open>prestar_copia\<close> calls both succeed and
  two \<^verbatim>\<open>devolver_copia\<close> calls after them bring \<^verbatim>\<open>numero_copias\<close> back to its original
  value; on a product with stock at least \<open>n\<close> (\<open>n\<close> nonnegative), \<^verbatim>\<open>reducir_stock(n)\<close>
  succeeds and \<^verbatim>\<open>aumentar_stock(n)\<close> after it brings \<^verbatim>\<open>stock\<close> back to its original
  value.
\<close>

theorem adquirir_liberar_inversos:
  "(2 \<le> numero_copias l \<longrightarrow>
      fst (prestar_copia l) \<and> fst (prestar_copia (snd (prestar_copia l))) \<and>
      numero_copias (devolver_copia (devolver_copia
          (snd (prestar_copia (snd (prestar_copia l)))))) = numero_copias l) \<and>
   (0 \<le> n \<and> n \<le> stock p \<longrightarrow>
      fst (reducir_stock p n) \<and>
      stock (aumentar_stock (snd (reducir_stock p n)) n) = stock p)"
  by (simp add: prestar_copia_def devolver_copia_def reducir_stock_def aumentar_stock_def Let_def)

theorem adquirir_liberar_inversos_witness:
  "2 \<le> numero_copias (libro_ej 2) \<and> (0::int) \<le> 3 \<and> 3 \<le> stock (producto_ej 1 10 5) \<and>
   fst (prestar_copia (libro_ej 2)) \<and> fst (prestar_copia (snd (prestar_copia (libro_ej 2)))) \<and>
   numero_copias (snd (prestar_copia (snd (prestar_copia (libro_ej 2))))) = 0 \<and>
   numero_copias (devolver_copia (devolver_copia
          (snd (prestar_copia (snd (prestar_copia (libro_ej 2))))))) = 2 \<and>
   fst (reducir_stock (producto_ej 1 10 5) 3) \<and>
   stock (snd (reducir_stock (producto_ej 1 10 5) 3)) = 2 \<and>
   stock (aumentar_stock (snd (reducir_stock (producto_ej 1 10 5) 3)) 3) = 5"
  using adquirir_liberar_inversos [of "libro_ej 2" 3 "producto_ej 1 10 5"]
  by (simp add: libro_ej_def producto_ej_def prestar_copia_def reducir_stock_def Let_def)

section \<open>Orders and carts\<close>

text \<open>
  C1. \<^verbatim>\<open>crear_pedido\<close> is meant to be all-or-nothing. On the cart
  \<open>[(product 1, 2), (product 2, 3)]\<close> with stocks 5 and 1 the second line lacks stock:
  \<^verbatim>\<open>crear_pedido\<close> returns \<^verbatim>\<open>None\<close>, the store's orders and the cart are as before,
  yet the stock of product 1 has already gone from 5 to 3.
\<close>

theorem crear_pedido_parcial:
  "stock (mem_productos (mem_tienda_ej 2 3) 1) = 5 \<and>
   stock (mem_productos (mem_tienda_ej 2 3) 2) = 1 \<and>
   CarritoCompras.items carrito_ej = [0, 1] \<and>
   mem_items (mem_tienda_ej 2 3) 0 = \<lparr>producto = 1, cantidad = 2\<rparr> \<and>
   mem_items (mem_tienda_ej 2 3) 1 = \<lparr>producto = 2, cantidad = 3\<rparr> \<and>
   fst (crear_pedido aritmetica_int (mem_tienda_ej 2 3) tienda_ej cliente_ej carrito_ej) = None \<and>
   stock (mem_productos
            (fst (snd (crear_pedido aritmetica_int (mem_tienda_ej 2 3) tienda_ej cliente_ej
                         carrito_ej))) 1) = 3 \<and>
   fst (snd (snd (crear_pedido aritmetica_int (mem_tienda_ej 2 3) tienda_ej cliente_ej
                    carrito_ej))) = tienda_ej \<and>
   snd (snd (snd (crear_pedido aritmetica_int (mem_tienda_ej 2 3) tienda_ej cliente_ej
                    carrito_ej))) = carrito_ej"
  by (simp add: crear_pedido_def carrito_ej_def mem_tienda_ej_def producto_ej_def
        reducir_stock_def)

text \<open>
  C8, as stated, fails: the order's lines are the cart's \<^verbatim>\<open>ItemCarrito\<close> objects, and
  the \<^verbatim>\<open>total\<close> does not follow them. An order is built from a cart with 2 units of
  product 1 (price 10) and 1 unit of product 2 (price 4): \<^verbatim>\<open>total\<close> is 24. One more
  unit of product 1 is then added to the cart. No price has changed, the order's lines
  now carry the quantities 3 and 1 and are worth 34, and \<^verbatim>\<open>total\<close> is still 24.
\<close>

theorem total_no_sigue_a_las_lineas:
  "total (mem_pedidos mem_pedido_ej 0) = 24 \<and>
   cantidad (mem_items mem_pedido_ej 0) = 2 \<and>
   cantidad (mem_items mem_pedido_ej 1) = 1 \<and>
   Pedido.items (mem_pedidos mem_alias_ej 0) = [0, 1] \<and>
   CarritoCompras.items carrito_ej = [0, 1] \<and>
   producto (mem_items mem_alias_ej 0) = 1 \<and>
   producto (mem_items mem_alias_ej 1) = 2 \<and>
   cantidad (mem_items mem_alias_ej 0) = 3 \<and>
   cantidad (mem_items mem_alias_ej 1) = 1 \<and>
   precio (mem_productos mem_pedido_ej 1) = 10 \<and>
   precio (mem_productos mem_pedido_ej 2) = 4 \<and>
   precio (mem_productos mem_alias_ej 1) = 10 \<and>
   precio (mem_productos mem_alias_ej 2) = 4 \<and>
   calcular_total aritmetica_int mem_alias_ej carrito_ej = 34 \<and>
   total (mem_pedidos mem_alias_ej 0) = 24"
  by (simp add: mem_alias_ej_def mem_pedido_ej_def agregar_producto_def esta_disponible_def
        Pedido_init_def calcular_total_def calcular_subtotal_def aritmetica_int_def
        datetime_now_def carrito_ej_def mem_tienda_ej_def producto_ej_def Let_def)

text \<open>
  C8, amended. The \<^verbatim>\<open>total\<close> of a \<^verbatim>\<open>Pedido\<close> is computed once, at construction, as
  the \<^verbatim>\<open>sum\<close> over the lines it is given of the product's price times the line's
  quantity, both as they are at that moment; the order holds those lines. No later
  sequence of operations on the store (price changes, stock changes, status changes,
  additions to a cart that shares lines with the order, further orders) changes that
  \<^verbatim>\<open>total\<close> or the order's list of lines.
\<close>

theorem total_fijado_al_crear:
  assumes "Pedido_init ar m cli its = (r, m')"
  shows "total (mem_pedidos m' r) =
           suma ar (map (\<lambda>i. por ar (precio (mem_productos m (producto (mem_items m i))))
                                     (cantidad (mem_items m i))) its) \<and>
         Pedido.items (mem_pedidos m' r) = its \<and>
         total (mem_pedidos (ejecutar_todas ar ops m') r) = total (mem_pedidos m' r) \<and>
         Pedido.items (mem_pedidos (ejecutar_todas ar ops m') r) = its"
proof -
  from assms have n: "num_pedidos m' = Suc r"
    by (auto simp: Pedido_init_def Let_def split: prod.splits)
  from assms have t: "total (mem_pedidos m' r) = suma ar (map (calcular_subtotal ar m) its)"
    and i: "Pedido.items (mem_pedidos m' r) = its"
    by (auto simp: Pedido_init_def Let_def split: prod.splits)
  have s: "calcular_subtotal ar m =
             (\<lambda>i. por ar (precio (mem_productos m (producto (mem_items m i))))
                          (cantidad (mem_items m i)))"
    by (rule ext) (simp add: calcular_subtotal_def)
  have "r < num_pedidos m'" using n by simp
  from ejecutar_todas_frame [OF this, of ar ops] t i s show ?thesis by simp
qed

theorem total_fijado_al_crear_witness:
  "Pedido_init aritmetica_int (mem_tienda_ej 2 1) cliente_ej [0, 1] = (0, mem_pedido_ej) \<and>
   total (mem_pedidos mem_pedido_ej 0) = 24 \<and>
   precio (mem_productos (ejecutar_todas aritmetica_int ops_ej mem_pedido_ej) 1) = 99 \<and>
   cantidad (mem_items (ejecutar_todas aritmetica_int ops_ej mem_pedido_ej) 0) = 3 \<and>
   total (mem_pedidos (ejecutar_todas aritmetica_int ops_ej mem_pedido_ej) 0) = 24 \<and>
   Pedido.items (mem_pedidos (ejecutar_todas aritmetica_int ops_ej mem_pedido_ej) 0) = [0, 1]"
proof -
  have h: "Pedido_init aritmetica_int (mem_tienda_ej 2 1) cliente_ej [0, 1] = (0, mem_pedido_ej)"
    by (simp add: mem_pedido_ej_def carrito_ej_def Pedido_init_def mem_tienda_ej_def Let_def
          split: prod.splits)
  have p: "precio (mem_productos (ejecutar_todas aritmetica_int ops_ej mem_pedido_ej) 1) = 99"
    "cantidad (mem_items (ejecutar_todas aritmetica_int ops_ej mem_pedido_ej) 0) = 3"
    by (simp_all add: ops_ej_def mem_pedido_ej_def Pedido_init_def mem_tienda_ej_def
          asignar_precio_def cambiar_estado_def aumentar_stock_def agregar_producto_def
          esta_disponible_def crear_pedido_def carrito_ej_def reducir_stock_def producto_ej_def
          vaciar_carrito_def datetime_now_def Let_def split: prod.splits)
  have v: "suma aritmetica_int
             (map (\<lambda>i. por aritmetica_int
                         (precio (mem_productos (mem_tienda_ej 2 1)
                                    (producto (mem_items (mem_tienda_ej 2 1) i))))
                         (cantidad (mem_items (mem_tienda_ej 2 1) i))) [0, 1]) = 24"
    by (simp add: aritmetica_int_def mem_tienda_ej_def producto_ej_def)
  show ?thesis
    using h p v total_fijado_al_crear [OF h, of ops_ej]
    by simp
qed



section \<open>Loans and the catalogue\<close>

text \<open>
  C2. Returning an overdue loan is meant to create one \<^verbatim>\<open>Multa\<close> of 1.50 per whole day
  of delay. Loan 1 is still out, was due at day 14 and is returned a little after day 34,
  twenty whole days late: \<^verbatim>\<open>devolver_libro\<close> returns \<^verbatim>\<open>True\<close> and the list of fines
  is as empty as before.
\<close>

theorem devolver_libro_sin_multa:
  "fecha_devolucion (mem_prestamos mem_biblioteca_ej 0) = None \<and>
   id_prestamo (mem_prestamos mem_biblioteca_ej 0) = 1 \<and>
   fecha_vencimiento (mem_prestamos mem_biblioteca_ej 0)
     < fst (datetime_now (reloj_biblioteca mem_biblioteca_ej)) \<and>
   days (fst (datetime_now (reloj_biblioteca mem_biblioteca_ej))
            - fecha_vencimiento (mem_prestamos mem_biblioteca_ej 0)) = 20 \<and>
   fst (devolver_libro mem_biblioteca_ej biblioteca_ej 1) = True \<and>
   multas biblioteca_ej = [] \<and>
   multas (snd (snd (devolver_libro mem_biblioteca_ej biblioteca_ej 1))) = []"
  by (simp add: devolver_libro_def devolver_def esta_vencido_def datetime_now_def Let_def
        mem_biblioteca_ej_def biblioteca_ej_def prestamo_ej_def timedelta_def days_def)

text \<open>
  C5. On a loan that is still out and has never been renewed, three successive renewals,
  through \<^verbatim>\<open>Prestamo.renovar\<close> or through \<^verbatim>\<open>Biblioteca.renovar_prestamo\<close> with the
  loan's id, go as follows: the first two return \<^verbatim>\<open>True\<close>, each adds one to
  \<^verbatim>\<open>renovaciones\<close> and sets \<^verbatim>\<open>fecha_vencimiento\<close> to the clock reading of that call
  plus 14 days; the third returns \<^verbatim>\<open>False\<close> and leaves the whole store as it was.
\<close>

theorem renovar_dos_veces:
  assumes found: "buscar_prestamo (mem_prestamos m) idp (prestamos b) = Some pr"
      and act: "fecha_devolucion (mem_prestamos m pr) = None"
      and ren: "renovaciones (mem_prestamos m pr) = 0"
  shows "(let (ok1, m1) = renovar m pr; (ok2, m2) = renovar m1 pr; (ok3, m3) = renovar m2 pr
          in ok1 \<and> renovaciones (mem_prestamos m1 pr) = 1 \<and>
             fecha_vencimiento (mem_prestamos m1 pr) =
               fst (datetime_now (reloj_biblioteca m)) + timedelta 14 \<and>
             ok2 \<and> renovaciones (mem_prestamos m2 pr) = 2 \<and>
             fecha_vencimiento (mem_prestamos m2 pr) =
               fst (datetime_now (reloj_biblioteca m1)) + timedelta 14 \<and>
             \<not> ok3 \<and> m3 = m2 \<and>
             renovar_prestamo m b idp = (ok1, m1) \<and>
             renovar_prestamo m1 b idp = (ok2, m2) \<and>
             renovar_prestamo m2 b idp = (ok3, m3))"
proof -
  define m1 where "m1 = snd (renovar m pr)"
  define m2 where "m2 = snd (renovar m1 pr)"
  have f1: "buscar_prestamo (mem_prestamos m1) idp (prestamos b) = Some pr"
    using found buscar_prestamo_ids [of "mem_prestamos m1" "mem_prestamos m"]
    by (simp add: m1_def renovar_conserva)
  have a1: "fecha_devolucion (mem_prestamos m1 pr) = None"
    using act by (simp add: m1_def renovar_conserva)
  have f2: "buscar_prestamo (mem_prestamos m2) idp (prestamos b) = Some pr"
    using f1 buscar_prestamo_ids [of "mem_prestamos m2" "mem_prestamos m1"]
    by (simp add: m2_def renovar_conserva)
  have a2: "fecha_devolucion (mem_prestamos m2 pr) = None"
    using a1 by (simp add: m2_def renovar_conserva)
  have e0: "renovar_prestamo m b idp = renovar m pr"
    by (rule renovar_prestamo_encontrado [OF found act])
  have e1: "renovar_prestamo m1 b idp = renovar m1 pr"
    by (rule renovar_prestamo_encontrado [OF f1 a1])
  have e2: "renovar_prestamo m2 b idp = renovar m2 pr"
    by (rule renovar_prestamo_encontrado [OF f2 a2])
  have "(let (ok1, m1) = renovar m pr; (ok2, m2) = renovar m1 pr; (ok3, m3) = renovar m2 pr
          in ok1 \<and> renovaciones (mem_prestamos m1 pr) = 1 \<and>
             fecha_vencimiento (mem_prestamos m1 pr) =
               fst (datetime_now (reloj_biblioteca m)) + timedelta 14 \<and>
             ok2 \<and> renovaciones (mem_prestamos m2 pr) = 2 \<and>
             fecha_vencimiento (mem_prestamos m2 pr) =
               fst (datetime_now (reloj_biblioteca m1)) + timedelta 14 \<and>
             \<not> ok3 \<and> m3 = m2)"
    using ren
    by (simp add: renovar_def MAX_RENOVACIONES_def DIAS_PRESTAMO_def datetime_now_def Let_def
          split: prod.splits)
  then show ?thesis
    using e0 e1 e2 unfolding m1_def m2_def
    by (auto simp: Let_def split: prod.splits)
qed

theorem renovar_dos_veces_witness:
  "buscar_prestamo (mem_prestamos mem_biblioteca_ej) 1 (prestamos biblioteca_ej) = Some 0 \<and>
   fecha_devolucion (mem_prestamos mem_biblioteca_ej 0) = None \<and>
   renovaciones (mem_prestamos mem_biblioteca_ej 0) = 0 \<and>
   (let (ok1, m1) = renovar_prestamo mem_biblioteca_ej biblioteca_ej 1;
        (ok2, m2) = renovar_prestamo m1 biblioteca_ej 1;
        (ok3, m3) = renovar_prestamo m2 biblioteca_ej 1
    in ok1 \<and> ok2 \<and> \<not> ok3 \<and>
       fecha_vencimiento (mem_prestamos m1 0) = timedelta 48 + 1 \<and>
       fecha_vencimiento (mem_prestamos m2 0) = timedelta 48 + 2 \<and>
       renovaciones (mem_prestamos m3 0) = 2 \<and>
       fecha_vencimiento (mem_prestamos m3 0) = timedelta 48 + 2)"
proof -
  have h1: "buscar_prestamo (mem_prestamos mem_biblioteca_ej) 1 (prestamos biblioteca_ej) = Some 0"
    by (simp add: mem_biblioteca_ej_def biblioteca_ej_def prestamo_ej_def)
  have h2: "fecha_devolucion (mem_prestamos mem_biblioteca_ej 0) = None"
    by (simp add: mem_biblioteca_ej_def prestamo_ej_def)
  have h3: "renovaciones (mem_prestamos mem_biblioteca_ej 0) = 0"
    by (simp add: mem_biblioteca_ej_def prestamo_ej_def)
  have c: "fst (datetime_now (reloj_biblioteca mem_biblioteca_ej)) = timedelta 34 + 1"
    "fst (datetime_now (reloj_biblioteca (snd (renovar mem_biblioteca_ej 0)))) = timedelta 34 + 2"
    by (simp_all add: renovar_def MAX_RENOVACIONES_def datetime_now_def Let_def
          mem_biblioteca_ej_def prestamo_ej_def)
  show ?thesis
    using h1 h2 h3 c renovar_dos_veces [OF h1 h2 h3]
    by (auto simp: Let_def timedelta_def split: prod.splits)
qed

text \<open>
  C10. \<^verbatim>\<open>agregar_libro\<close> with a book whose ISBN is already a key of the catalogue leaves
  the catalogue mapping as it is, adds the new book's \<^verbatim>\<open>numero_copias\<close> to the
  registered book's and changes no other attribute of it and no other book; with an ISBN
  that is not a key, the book is stored under its ISBN, the other keys and the objects
  stay as they are.
\<close>

theorem agregar_libro_isbn:
  "(libros b (isbn (mem_libros m li)) = Some r \<longrightarrow>
      (let (m', b') = agregar_libro m b li
       in b' = b \<and>
          numero_copias (mem_libros m' r) =
            numero_copias (mem_libros m r) + numero_copias (mem_libros m li) \<and>
          isbn (mem_libros m' r) = isbn (mem_libros m r) \<and>
          titulo (mem_libros m' r) = titulo (mem_libros m r) \<and>
          autor (mem_libros m' r) = autor (mem_libros m r) \<and>
          genero (mem_libros m' r) = genero (mem_libros m r) \<and>
          anio_publicacion (mem_libros m' r) = anio_publicacion (mem_libros m r) \<and>
          Libro.estado (mem_libros m' r) = Libro.estado (mem_libros m r) \<and>
          (\<forall>x. x \<noteq> r \<longrightarrow> mem_libros m' x = mem_libros m x) \<and>
          m'\<lparr>mem_libros := mem_libros m\<rparr> = m)) \<and>
   (libros b (isbn (mem_libros m li)) = None \<longrightarrow>
      (let (m', b') = agregar_libro m b li
       in m' = m \<and> libros b' (isbn (mem_libros m li)) = Some li \<and>
          (\<forall>k. k \<noteq> isbn (mem_libros m li) \<longrightarrow> libros b' k = libros b k) \<and>
          prestamos b' = prestamos b \<and> multas b' = multas b \<and> miembros b' = miembros b))"
  by (auto simp: agregar_libro_def)

theorem agregar_libro_isbn_witness:
  "libros biblioteca_ej (isbn (mem_libros mem_biblioteca_ej 1)) = Some 0 \<and>
   numero_copias (mem_libros mem_biblioteca_ej 0) = 0 \<and>
   numero_copias (mem_libros mem_biblioteca_ej 1) = 3 \<and>
   snd (agregar_libro mem_biblioteca_ej biblioteca_ej 1) = biblioteca_ej \<and>
   numero_copias (mem_libros (fst (agregar_libro mem_biblioteca_ej biblioteca_ej 1)) 0) = 3 \<and>
   titulo (mem_libros (fst (agregar_libro mem_biblioteca_ej biblioteca_ej 1)) 0) = ''El Quijote'' \<and>
   libros biblioteca_ej (isbn (mem_libros mem_biblioteca_ej 2)) = None \<and>
   fst (agregar_libro mem_biblioteca_ej biblioteca_ej 2) = mem_biblioteca_ej \<and>
   libros (snd (agregar_libro mem_biblioteca_ej biblioteca_ej 2)) ''978-1'' = Some 2 \<and>
   libros (snd (agregar_libro mem_biblioteca_ej biblioteca_ej 2)) ''978-0'' = Some 0"
proof -
  have h: "libros biblioteca_ej (isbn (mem_libros mem_biblioteca_ej 1)) = Some 0"
    "libros biblioteca_ej (isbn (mem_libros mem_biblioteca_ej 2)) = None"
    "isbn (mem_libros mem_biblioteca_ej 2) = ''978-1''"
    "numero_copias (mem_libros mem_biblioteca_ej 0) = 0"
    "numero_copias (mem_libros mem_biblioteca_ej 1) = 3"
    "titulo (mem_libros mem_biblioteca_ej 0) = ''El Quijote''"
    "libros biblioteca_ej ''978-0'' = Some 0"
    by (simp_all add: biblioteca_ej_def mem_biblioteca_ej_def libro_ej_def)
  show ?thesis
    using h agregar_libro_isbn [of biblioteca_ej mem_biblioteca_ej 1 0]
      agregar_libro_isbn [of biblioteca_ej mem_biblioteca_ej 2 0]
    by (auto simp: Let_def split: prod.splits)
qed

section \<open>Reservations and terminal states\<close>

text \<open>
  C6. On an available room, \<^verbatim>\<open>realizar_reserva\<close> with \<^verbatim>\<open>fecha_salida <= fecha_entrada\<close>
  returns \<^verbatim>\<open>None\<close> and leaves the store and the hotel as they were (the room stays
  available, the list of reservations is the same); with \<^verbatim>\<open>fecha_salida\<close> strictly
  after \<^verbatim>\<open>fecha_entrada\<close> it returns a new \<^verbatim>\<open>Reserva\<close> with \<^verbatim>\<open>estado\<close>
  \<^verbatim>\<open>'confirmada'\<close> for that guest, room and dates, the room is no longer available, and
  the reservation is appended to the hotel's list.
\<close>

theorem realizar_reserva_fechas:
  assumes "disponible (mem_habitaciones m hab)"
  shows "(fs \<le> fe \<longrightarrow> realizar_reserva m h hu hab fe fs = (None, m, h)) \<and>
         (fe < fs \<longrightarrow>
            (let (res, m', h') = realizar_reserva m h hu hab fe fs; r = num_reservas m
             in res = Some r \<and>
                Reserva.estado (mem_reservas m' r) = ''confirmada'' \<and>
                habitacion (mem_reservas m' r) = hab \<and>
                huesped (mem_reservas m' r) = hu \<and>
                fecha_entrada (mem_reservas m' r) = fe \<and>
                fecha_salida (mem_reservas m' r) = fs \<and>
                \<not> disponible (mem_habitaciones m' hab) \<and>
                reservas h' = reservas h @ [r]))"
  using assms
  by (simp add: realizar_reserva_def Reserva_init_def marcar_ocupada_def datetime_now_def Let_def
        split: prod.splits)

theorem realizar_reserva_fechas_witness:
  "disponible (mem_habitaciones mem_hotel_ej 1) \<and>
   realizar_reserva mem_hotel_ej hotel_ej huesped_ej 1 (timedelta 5) (timedelta 5) =
     (None, mem_hotel_ej, hotel_ej) \<and>
   fst (realizar_reserva mem_hotel_ej hotel_ej huesped_ej 1 (timedelta 5) (timedelta 9)) = Some 2 \<and>
   reservas (snd (snd (realizar_reserva mem_hotel_ej hotel_ej huesped_ej 1
                         (timedelta 5) (timedelta 9)))) = [0, 1, 2] \<and>
   \<not> disponible (mem_habitaciones (fst (snd (realizar_reserva mem_hotel_ej hotel_ej huesped_ej 1
                         (timedelta 5) (timedelta 9)))) 1)"
proof -
  have h: "disponible (mem_habitaciones mem_hotel_ej 1)"
    by (simp add: mem_hotel_ej_def habitacion_ej_def)
  have n: "num_reservas mem_hotel_ej = 2" "reservas hotel_ej = [0, 1]"
    by (simp_all add: mem_hotel_ej_def hotel_ej_def)
  show ?thesis
    using h n realizar_reserva_fechas [OF h, of "timedelta 5" "timedelta 5" hotel_ej huesped_ej]
      realizar_reserva_fechas [OF h, of "timedelta 9" "timedelta 5" hotel_ej huesped_ej]
    by (auto simp: timedelta_def Let_def split: prod.splits)
qed

text \<open>
  C3, as stated, fails for reservations: \<^verbatim>\<open>Reserva.cancelar\<close> has no guard. Reservation
  1000 is completed and its room is occupied by a later reservation; cancelling it turns
  its \<^verbatim>\<open>estado\<close> into \<^verbatim>\<open>'cancelada'\<close> and makes the room available.
\<close>

theorem cancelar_sin_guarda:
  "Reserva.estado (mem_reservas mem_hotel_ej 0) = ''completada'' \<and>
   habitacion (mem_reservas mem_hotel_ej 0) = 0 \<and>
   \<not> disponible (mem_habitaciones mem_hotel_ej 0) \<and>
   Reserva.estado (mem_reservas (cancelar mem_hotel_ej 0) 0) = ''cancelada'' \<and>
   disponible (mem_habitaciones (cancelar mem_hotel_ej 0) 0)"
  by (simp add: cancelar_def marcar_disponible_def mem_hotel_ej_def reserva_ej_def
        habitacion_ej_def Let_def)

text \<open>
  C3, amended. \<^verbatim>\<open>devolver_libro\<close> with the id of a loan of the library that already has
  a \<^verbatim>\<open>fecha_devolucion\<close> (loan ids being distinct) returns \<^verbatim>\<open>False\<close> and changes
  nothing. \<^verbatim>\<open>Reserva.cancelar\<close> and \<^verbatim>\<open>Reserva.completar\<close> do not look at the current
  \<^verbatim>\<open>estado\<close>: on every reservation they set \<^verbatim>\<open>estado\<close> to \<^verbatim>\<open>'cancelada'\<close> and
  \<^verbatim>\<open>'completada'\<close> respectively and make the room available.
\<close>

theorem operaciones_en_estado_terminal:
  "(pr \<in> set (prestamos b) \<and> distinct (map (\<lambda>r. id_prestamo (mem_prestamos m r)) (prestamos b)) \<and>
    fecha_devolucion (mem_prestamos m pr) \<noteq> None \<longrightarrow>
      devolver_libro m b (id_prestamo (mem_prestamos m pr)) = (False, m, b)) \<and>
   Reserva.estado (mem_reservas (cancelar mh r) r) = ''cancelada'' \<and>
   disponible (mem_habitaciones (cancelar mh r) (habitacion (mem_reservas mh r))) \<and>
   Reserva.estado (mem_reservas (completar mh r) r) = ''completada'' \<and>
   disponible (mem_habitaciones (completar mh r) (habitacion (mem_reservas mh r)))"
  using buscar_prestamo_distinct [of "mem_prestamos m" "prestamos b" pr]
  by (auto simp: devolver_libro_def cancelar_def completar_def marcar_disponible_def Let_def)

theorem operaciones_en_estado_terminal_witness:
  "1 \<in> set (prestamos biblioteca_ej) \<and>
   distinct (map (\<lambda>r. id_prestamo (mem_prestamos mem_biblioteca_ej r)) (prestamos biblioteca_ej)) \<and>
   fecha_devolucion (mem_prestamos mem_biblioteca_ej 1) \<noteq> None \<and>
   id_prestamo (mem_prestamos mem_biblioteca_ej 1) = 2 \<and>
   devolver_libro mem_biblioteca_ej biblioteca_ej 2 = (False, mem_biblioteca_ej, biblioteca_ej) \<and>
   Reserva.estado (mem_reservas (completar mem_hotel_ej 1) 1) = ''completada''"
proof -
  have h: "1 \<in> set (prestamos biblioteca_ej)"
    "distinct (map (\<lambda>r. id_prestamo (mem_prestamos mem_biblioteca_ej r)) (prestamos biblioteca_ej))"
    "fecha_devolucion (mem_prestamos mem_biblioteca_ej 1) \<noteq> None"
    "id_prestamo (mem_prestamos mem_biblioteca_ej 1) = 2"
    by (simp_all add: biblioteca_ej_def mem_biblioteca_ej_def prestamo_ej_def)
  show ?thesis
    using h operaciones_en_estado_terminal [of 1 biblioteca_ej mem_biblioteca_ej mem_hotel_ej 1]
    by simp
qed

end
